theory Spec2Isabelle
  imports Complex_Main "HOL-Library.Word"
begin

section \<open>Attribute types (package types, package attr)\<close>

text \<open>
  \<open>attr.Type\<close> is a Go interface.  Its implementations in this repository are the three
  primitives \<open>StringType\<close>, \<open>NumberType\<close>, \<open>BoolType\<close> and the containers
  \<open>ObjectType{AttrTypes map[string]attr.Type}\<close>, \<open>ListType{ElemType attr.Type}\<close> and
  \<open>MapType{ElemType attr.Type}\<close>.  An interface value may also be \<open>nil\<close>; the source
  tests for it (\<open>l.ElemType == nil\<close>) and produces it (\<open>setNestedAttributes.AttributeType\<close>),
  so it is a value of the model: \<open>NilType\<close>.  Calling a method on it is a run-time panic.

  A Go \<open>map[string]T\<close> is an association list whose keys are pairwise distinct
  (\<open>distinct (map fst m)\<close>, part of the well-formedness predicates below); \<open>m[k]\<close> is
  \<open>map_of m k\<close>, \<open>len(m)\<close> is \<open>length m\<close>, and \<open>range m\<close> visits the entries in list
  order (Go leaves the order unspecified).
\<close>

datatype ty =
    NilType
  | StringType
  | NumberType
  | BoolType
  | ObjectType "(string \<times> ty) list"
  | ListType ty
  | MapType ty

text \<open>A type built from the six variants only: no \<open>nil\<close> inside, and attribute maps
  that are maps (no key twice).\<close>

fun wf_ty :: "ty \<Rightarrow> bool"
and wf_tys :: "(string \<times> ty) list \<Rightarrow> bool" where
  "wf_ty NilType = False"
| "wf_ty StringType = True"
| "wf_ty NumberType = True"
| "wf_ty BoolType = True"
| "wf_ty (ObjectType ats) = (distinct (map fst ats) \<and> wf_tys ats)"
| "wf_ty (ListType e) = wf_ty e"
| "wf_ty (MapType e) = wf_ty e"
| "wf_tys [] = True"
| "wf_tys (kv # ats) = (wf_ty (snd kv) \<and> wf_tys ats)"

subsection \<open>Type equality\<close>

text \<open>
  \<open>Equal\<close> on types.  The result is \<open>None\<close> when the Go code panics (a method call on a
  nil \<open>attr.Type\<close>), \<open>Some b\<close> when it returns \<open>b\<close>.

  \<^item> \<open>ListType.Equal\<close> (types/list.go) and \<open>MapType.Equal\<close> (types/map.go): \<open>false\<close> when
    the receiver's \<open>ElemType\<close> is nil, \<open>false\<close> when the other type is of another
    variant (the type assertion \<open>o.(ListType)\<close> fails, also for nil), otherwise
    \<open>l.ElemType.Equal(other.ElemType)\<close>.
  \<^item> \<open>ObjectType.Equal\<close>: \<open>false\<close> for another variant, \<open>false\<close> when the two maps
    differ in length, then for every entry \<open>k, v\<close> of the receiver: \<open>false\<close> when the
    other map has no \<open>k\<close>, \<open>false\<close> when \<open>v.Equal(other[k])\<close> is false; \<open>true\<close> after
    the loop.
\<close>

text \<open>
  Modelled from the spec: the \<open>Equal\<close> method of the primitives, the three equations for
  \<open>StringType\<close>, \<open>NumberType\<close> and \<open>BoolType\<close> (types/primitive.go is not among the
  sources).  The spec's "Equality is variant + recursive structural comparison" makes a
  primitive equal to exactly the same primitive.
\<close>

fun Equal :: "ty \<Rightarrow> ty \<Rightarrow> bool option"
and Equal_attrs :: "(string \<times> ty) list \<Rightarrow> (string \<times> ty) list \<Rightarrow> bool option" where
  "Equal NilType other = None"
| "Equal StringType other = Some (other = StringType)"
| "Equal NumberType other = Some (other = NumberType)"
| "Equal BoolType other = Some (other = BoolType)"
| "Equal (ListType e) other =
     (if e = NilType then Some False
      else case other of ListType e' \<Rightarrow> Equal e e' | _ \<Rightarrow> Some False)"
| "Equal (MapType e) other =
     (if e = NilType then Some False
      else case other of MapType e' \<Rightarrow> Equal e e' | _ \<Rightarrow> Some False)"
| "Equal (ObjectType ats) other =
     (case other of
        ObjectType bts \<Rightarrow>
          if length bts \<noteq> length ats then Some False else Equal_attrs ats bts
      | _ \<Rightarrow> Some False)"
| "Equal_attrs [] bts = Some True"
| "Equal_attrs (kv # ats) bts =
     (case map_of bts (fst kv) of
        None \<Rightarrow> Some False
      | Some a \<Rightarrow>
          (case Equal (snd kv) a of
             None \<Rightarrow> None
           | Some False \<Rightarrow> Some False
           | Some True \<Rightarrow> Equal_attrs ats bts))"

subsection \<open>Path steps\<close>

text \<open>
  \<open>tftypes.AttributePathStep\<close> (terraform-plugin-go) has four implementations:
  \<open>AttributeName string\<close>, \<open>ElementKeyString string\<close>, \<open>ElementKeyInt int64\<close> and
  \<open>ElementKeyValue tftypes.Value\<close>.  The payload of \<open>ElementKeyValue\<close> is never inspected
  by this repository and is left out.
\<close>

datatype step =
    AttributeName string
  | ElementKeyString string
  | ElementKeyInt "64 word"
  | ElementKeyValue

text \<open>
  The errors of the modelled code, by kind (the Go code builds them with \<open>fmt.Errorf\<close>
  and \<open>errors.New\<close>; the message text is not modelled):
  \<^item> \<open>StepKindMismatch\<close>: "cannot apply step %T to ListType" and its siblings;
  \<^item> \<open>AttributeNotFound\<close>: "could not find attribute %q in schema", "no attribute %q on
    Attributes";
  \<^item> \<open>ShapeMismatch\<close>: "can't use %s as value of List ...", "expected %s, got %s";
  \<^item> \<open>AsError\<close>: an error of \<open>tftypes.Value.As\<close>; \<open>ValidateError\<close>: one of
    \<open>tftypes.ValidateValue\<close>; \<open>ErrNotAttributePathStepper\<close>: the one of
    \<open>tftypes.WalkAttributePath\<close>;
  \<^item> \<open>ErrPathInsideAtomicAttribute\<close>: the variable of that name in schema/schema.go;
  \<^item> \<open>UnexpectedType\<close>: "got unexpected type %T";
  \<^item> \<open>StillRemains remaining err\<close>: "%v still remains in the path: %w", wrapping \<open>err\<close>;
  \<^item> \<open>AttributeEmpty\<close>: an Attribute with neither a type nor nested attributes;
  \<^item> \<open>NotAnObject\<close>, \<open>SchemaFieldMismatch\<close>, \<open>UnhandledNullOrUnknown\<close>: the errors of
    the reflection engine, the second carrying the names found only in the struct and the
    names found only in the object;
  \<^item> \<open>Panic\<close>: a run-time panic.
\<close>

datatype error =
    StepKindMismatch
  | AttributeNotFound
  | ShapeMismatch
  | AsError
  | ValidateError
  | ErrNotAttributePathStepper
  | ErrPathInsideAtomicAttribute
  | UnexpectedType
  | StillRemains "step list" error
  | AttributeEmpty
  | NotAnObject
  | SchemaFieldMismatch "string list" "string list"
  | UnhandledNullOrUnknown
  | Panic

text \<open>
  \<open>ApplyTerraform5AttributePathStep\<close> of the three container types.  The Go result is
  \<open>(interface{}, error)\<close>; \<open>Inr t\<close> is \<open>(t, nil)\<close>, and \<open>Inr NilType\<close> is \<open>(nil, nil)\<close>.
  \<open>ObjectType\<close> returns \<open>o.AttrTypes[name]\<close> with a nil error; for a name that is not a
  key of the map, \<open>o.AttrTypes[name]\<close> is the zero value of \<open>attr.Type\<close>: nil.
\<close>

definition ListType_ApplyTerraform5AttributePathStep :: "ty \<Rightarrow> step \<Rightarrow> error + ty" where
  "ListType_ApplyTerraform5AttributePathStep elemType s =
     (case s of ElementKeyInt _ \<Rightarrow> Inr elemType | _ \<Rightarrow> Inl StepKindMismatch)"

definition MapType_ApplyTerraform5AttributePathStep :: "ty \<Rightarrow> step \<Rightarrow> error + ty" where
  "MapType_ApplyTerraform5AttributePathStep elemType s =
     (case s of ElementKeyString _ \<Rightarrow> Inr elemType | _ \<Rightarrow> Inl StepKindMismatch)"

definition ObjectType_ApplyTerraform5AttributePathStep ::
  "(string \<times> ty) list \<Rightarrow> step \<Rightarrow> error + ty" where
  "ObjectType_ApplyTerraform5AttributePathStep attrTypes s =
     (case s of
        AttributeName n \<Rightarrow> (case map_of attrTypes n of None \<Rightarrow> Inr NilType | Some t \<Rightarrow> Inr t)
      | _ \<Rightarrow> Inl StepKindMismatch)"

text \<open>
  Modelled from the spec: the step method of the primitives, the last equation
  (types/primitive.go is not among the sources).  A primitive has no element and no
  attribute, so every step is rejected.  The other equations are the dispatch of the
  interface method to the three methods above, and the panic of a call on nil.
\<close>

fun ApplyTerraform5AttributePathStep :: "ty \<Rightarrow> step \<Rightarrow> error + ty" where
  "ApplyTerraform5AttributePathStep NilType s = Inl Panic"
| "ApplyTerraform5AttributePathStep (ObjectType ats) s = ObjectType_ApplyTerraform5AttributePathStep ats s"
| "ApplyTerraform5AttributePathStep (ListType e) s = ListType_ApplyTerraform5AttributePathStep e s"
| "ApplyTerraform5AttributePathStep (MapType e) s = MapType_ApplyTerraform5AttributePathStep e s"
| "ApplyTerraform5AttributePathStep t s = Inl StepKindMismatch"


section \<open>Wire values (package tftypes of terraform-plugin-go)\<close>

text \<open>
  The wire side belongs to the library terraform-plugin-go, which is not part of this
  repository; what the repository's code uses of it is modelled here.

  \<open>tftypes.Type\<close>: the wire types that the Types of this repository map to.  The wire
  types \<open>Set\<close>, \<open>Tuple\<close> and \<open>DynamicPseudoType\<close>, which \<open>TerraformType\<close> never
  produces, are left out.
\<close>

datatype tftype =
    TfString
  | TfNumber
  | TfBool
  | TfList tftype
  | TfMap tftype
  | TfObject "(string \<times> tftype) list"

text \<open>
  \<open>t.Is(other)\<close> for a fully specified \<open>other\<close>: the same variant, and recursively the
  same element type; for objects the same number of attributes, each attribute of \<open>t\<close>
  present in \<open>other\<close> with a type that \<open>Is\<close> the other's.
\<close>

fun Is :: "tftype \<Rightarrow> tftype \<Rightarrow> bool"
and Is_attrs :: "(string \<times> tftype) list \<Rightarrow> (string \<times> tftype) list \<Rightarrow> bool" where
  "Is TfString other = (other = TfString)"
| "Is TfNumber other = (other = TfNumber)"
| "Is TfBool other = (other = TfBool)"
| "Is (TfList e) other = (case other of TfList e' \<Rightarrow> Is e e' | _ \<Rightarrow> False)"
| "Is (TfMap e) other = (case other of TfMap e' \<Rightarrow> Is e e' | _ \<Rightarrow> False)"
| "Is (TfObject ats) other =
     (case other of
        TfObject bts \<Rightarrow> length ats = length bts \<and> Is_attrs ats bts
      | _ \<Rightarrow> False)"
| "Is_attrs [] bts = True"
| "Is_attrs (kv # ats) bts =
     (case map_of bts (fst kv) of
        None \<Rightarrow> False
      | Some b \<Rightarrow> Is (snd kv) b \<and> Is_attrs ats bts)"

text \<open>\<open>in.Type().Is(tftypes.Map{})\<close>: with no element type given, only the variant is
  compared.\<close>

definition Is_any_Map :: "tftype \<Rightarrow> bool" where
  "Is_any_Map t = (case t of TfMap _ \<Rightarrow> True | _ \<Rightarrow> False)"

text \<open>
  A \<open>tftypes.Value\<close> is a wire type and a payload.  The payload is the Go
  \<open>interface{}\<close> that \<open>ToTerraformValue\<close> returns and \<open>tftypes.NewValue\<close> takes:
  \<open>nil\<close> (null), \<open>tftypes.UnknownValue\<close>, a \<open>string\<close>, a \<open>*big.Float\<close> (which may be
  a nil pointer), a \<open>bool\<close>, a \<open>[]tftypes.Value\<close> or a \<open>map[string]tftypes.Value\<close>.
  The numeric value of a \<open>big.Float\<close> is a rational number here; its precision and
  rounding mode are not part of the model (see \<open>numberValueFromTerraform\<close>).
\<close>

datatype payload =
    PNil
  | PUnknown
  | PString string
  | PNumber "rat option"
  | PBool bool
  | PList "(tftype \<times> payload) list"
  | PMap "(string \<times> tftype \<times> payload) list"

type_synonym tfvalue = "tftype \<times> payload"

definition IsKnown :: "tfvalue \<Rightarrow> bool" where
  "IsKnown v = (snd v \<noteq> PUnknown)"

definition IsNull :: "tfvalue \<Rightarrow> bool" where
  "IsNull v = (snd v = PNil)"

text \<open>\<open>in.As(&target)\<close> for a known, non-null value: the payload must have the Go type
  of the target.\<close>

definition As_string :: "tfvalue \<Rightarrow> error + string" where
  "As_string v = (case snd v of PString s \<Rightarrow> Inr s | _ \<Rightarrow> Inl AsError)"

definition As_bool :: "tfvalue \<Rightarrow> error + bool" where
  "As_bool v = (case snd v of PBool b \<Rightarrow> Inr b | _ \<Rightarrow> Inl AsError)"

definition As_list :: "tfvalue \<Rightarrow> error + tfvalue list" where
  "As_list v = (case snd v of PList vs \<Rightarrow> Inr vs | _ \<Rightarrow> Inl AsError)"

definition As_map :: "tfvalue \<Rightarrow> error + (string \<times> tfvalue) list" where
  "As_map v = (case snd v of PMap kvs \<Rightarrow> Inr kvs | _ \<Rightarrow> Inl AsError)"

text \<open>
  \<open>n := big.NewFloat(0); err := in.As(&n)\<close>: the library copies the wire number into the
  receiving Float with \<open>big.Float.Set\<close>, which rounds to the receiver's precision
  (\<open>big.NewFloat\<close> gives precision 53).  That copy is the parameter \<open>set_float\<close>; a nil
  pointer as the source is dereferenced.
\<close>

definition As_number :: "(rat \<Rightarrow> rat) \<Rightarrow> tfvalue \<Rightarrow> error + rat" where
  "As_number set_float v =
     (case snd v of
        PNumber (Some x) \<Rightarrow> Inr (set_float x)
      | PNumber None \<Rightarrow> Inl Panic
      | _ \<Rightarrow> Inl AsError)"





section \<open>Attribute values (package types)\<close>

text \<open>
  The implementations of \<open>attr.Value\<close>.  The fields, in the order of the constructor
  arguments:
  \<^item> \<open>String{Unknown, Null, Value string}\<close> (types/string.go);
  \<^item> \<open>Number{Unknown, Null, Value *big.Float}\<close> (the second part of that file); \<open>None\<close>
    is the nil pointer;
  \<^item> \<open>Bool{Unknown, Null, Value bool}\<close>;
  \<^item> \<open>List{Unknown, Null, Elems []attr.Value, ElemType attr.Type}\<close> (types/list.go);
  \<^item> \<open>Map{Unknown, Null, Elems map[string]attr.Value, ElemType attr.Type}\<close>
    (types/map.go);
  \<^item> \<open>Object{Unknown, Null, Attrs map[string]attr.Value, AttrTypes map[string]attr.Type}\<close>.
  A nil slice and an empty slice (a nil map and an empty map) behave alike in all the
  code modelled (\<open>len\<close>, \<open>range\<close>, lookup) and are both the empty list.
\<close>

datatype val =
    StringValue bool bool string
  | NumberValue bool bool "rat option"
  | BoolValue bool bool bool
  | ListValue bool bool "val list" ty
  | MapValue bool bool "(string \<times> val) list" ty
  | ObjectValue bool bool "(string \<times> val) list" "(string \<times> ty) list"




subsection \<open>From attribute types to wire types\<close>

text \<open>
  \<open>TerraformType\<close>: \<open>ListType\<close> gives \<open>tftypes.List{ElementType: l.ElemType.TerraformType(ctx)}\<close>,
  \<open>MapType\<close> gives \<open>tftypes.Map{AttributeType: ...}\<close>, \<open>ObjectType\<close> maps every attribute
  type.  The result is \<open>None\<close> when the method is called on a nil \<open>attr.Type\<close> (a panic).
\<close>

text \<open>
  Modelled from the spec: \<open>TerraformType\<close> of the primitives, the three equations for
  \<open>StringType\<close>, \<open>NumberType\<close> and \<open>BoolType\<close> (types/primitive.go is not among the
  sources): "the external wire-type descriptor corresponding to this Type".
\<close>

fun TerraformType :: "ty \<Rightarrow> tftype option"
and TerraformType_attrs :: "(string \<times> ty) list \<Rightarrow> (string \<times> tftype) list option" where
  "TerraformType NilType = None"
| "TerraformType StringType = Some TfString"
| "TerraformType NumberType = Some TfNumber"
| "TerraformType BoolType = Some TfBool"
| "TerraformType (ListType e) =
     (case TerraformType e of None \<Rightarrow> None | Some t \<Rightarrow> Some (TfList t))"
| "TerraformType (MapType e) =
     (case TerraformType e of None \<Rightarrow> None | Some t \<Rightarrow> Some (TfMap t))"
| "TerraformType (ObjectType ats) =
     (case TerraformType_attrs ats of None \<Rightarrow> None | Some ts \<Rightarrow> Some (TfObject ts))"
| "TerraformType_attrs [] = Some []"
| "TerraformType_attrs (kv # ats) =
     (case TerraformType (snd kv) of
        None \<Rightarrow> None
      | Some t \<Rightarrow>
          (case TerraformType_attrs ats of
             None \<Rightarrow> None
           | Some ts \<Rightarrow> Some ((fst kv, t) # ts)))"

subsection \<open>Decoding: ValueFromTerraform\<close>

text \<open>
  \<open>stringValueFromTerraform\<close> (types/string.go) and \<open>numberValueFromTerraform\<close>: unknown
  first, then null, then \<open>in.As\<close>.  The wire type of \<open>in\<close> is not looked at.
\<close>

definition stringValueFromTerraform :: "tfvalue \<Rightarrow> error + val" where
  "stringValueFromTerraform inp =
     (if \<not> IsKnown inp then Inr (StringValue True False [])
      else if IsNull inp then Inr (StringValue False True [])
      else case As_string inp of
             Inl err \<Rightarrow> Inl err
           | Inr s \<Rightarrow> Inr (StringValue False False s))"

definition numberValueFromTerraform :: "(rat \<Rightarrow> rat) \<Rightarrow> tfvalue \<Rightarrow> error + val" where
  "numberValueFromTerraform set_float inp =
     (if \<not> IsKnown inp then Inr (NumberValue True False None)
      else if IsNull inp then Inr (NumberValue False True None)
      else case As_number set_float inp of
             Inl err \<Rightarrow> Inl err
           | Inr n \<Rightarrow> Inr (NumberValue False False (Some n)))"

text \<open>
  Modelled from the spec: \<open>boolValueFromTerraform\<close> (types/bool.go is not among the
  sources).  The spec's decode algorithm, "first check wire-level known/null tri-state
  flags", is that of the other two primitives.
\<close>

definition boolValueFromTerraform :: "tfvalue \<Rightarrow> error + val" where
  "boolValueFromTerraform inp =
     (if \<not> IsKnown inp then Inr (BoolValue True False False)
      else if IsNull inp then Inr (BoolValue False True False)
      else case As_bool inp of
             Inl err \<Rightarrow> Inl err
           | Inr b \<Rightarrow> Inr (BoolValue False False b))"

text \<open>
  \<open>ValueFromTerraform\<close> of every Type; the argument \<open>sf\<close> is the copy \<open>set_float\<close> of
  \<open>As_number\<close>.
  \<^item> \<open>ListType\<close> (types/list.go): the wire type is compared with \<open>l.TerraformType(ctx)\<close>
    first; then unknown, null, \<open>in.As(&val)\<close> into a \<open>[]tftypes.Value\<close>, and every
    element decoded with \<open>l.ElemType\<close>, the first error returned.
  \<^item> \<open>MapType\<close> (types/map.go): the wire type is compared with \<open>tftypes.Map{}\<close> and with
    the full wire type first; then as for lists, over a \<open>map[string]tftypes.Value\<close>.
  \<^item> \<open>ObjectType\<close>: the wire type is compared with \<open>o.TerraformType(ctx)\<close> first; every
    attribute \<open>k\<close> of the wire object is decoded with \<open>object.AttrTypes[k]\<close>, a nil
    interface (and a panic) when the map has no \<open>k\<close>.
  \<open>in.As(&val)\<close> is \<open>As_list\<close> (\<open>As_map\<close>), written out as the case distinction on the
  payload that it makes, so that the recursion on the elements is structural.
\<close>

text \<open>
  Modelled from the spec: \<open>ValueFromTerraform\<close> of the primitives, the three equations
  that dispatch \<open>StringType\<close>, \<open>NumberType\<close> and \<open>BoolType\<close> to the three functions above
  (types/primitive.go is not among the sources).
\<close>

fun ValueFromTerraform :: "(rat \<Rightarrow> rat) \<Rightarrow> ty \<Rightarrow> tfvalue \<Rightarrow> error + val"
and ValueFromTerraform_elems :: "(rat \<Rightarrow> rat) \<Rightarrow> ty \<Rightarrow> tfvalue list \<Rightarrow> error + val list"
and ValueFromTerraform_map ::
  "(rat \<Rightarrow> rat) \<Rightarrow> ty \<Rightarrow> (string \<times> tfvalue) list \<Rightarrow> error + (string \<times> val) list"
and ValueFromTerraform_attrs ::
  "(rat \<Rightarrow> rat) \<Rightarrow> (string \<times> ty) list \<Rightarrow> (string \<times> tfvalue) list \<Rightarrow> error + (string \<times> val) list"
where
  "ValueFromTerraform sf NilType inp = Inl Panic"
| "ValueFromTerraform sf StringType inp = stringValueFromTerraform inp"
| "ValueFromTerraform sf NumberType inp = numberValueFromTerraform sf inp"
| "ValueFromTerraform sf BoolType inp = boolValueFromTerraform inp"
| "ValueFromTerraform sf (ListType e) inp =
     (case TerraformType (ListType e) of
        None \<Rightarrow> Inl Panic
      | Some lt \<Rightarrow>
          if \<not> Is (fst inp) lt then Inl ShapeMismatch
          else if \<not> IsKnown inp then Inr (ListValue True False [] e)
          else if IsNull inp then Inr (ListValue False True [] e)
          else (case snd inp of
                  PList vs \<Rightarrow>
                    (case ValueFromTerraform_elems sf e vs of
                       Inl err \<Rightarrow> Inl err
                     | Inr elems \<Rightarrow> Inr (ListValue False False elems e))
                | _ \<Rightarrow> Inl AsError))"
| "ValueFromTerraform sf (MapType e) inp =
     (if \<not> Is_any_Map (fst inp) then Inl ShapeMismatch
      else case TerraformType (MapType e) of
        None \<Rightarrow> Inl Panic
      | Some mt \<Rightarrow>
          if \<not> Is (fst inp) mt then Inl ShapeMismatch
          else if \<not> IsKnown inp then Inr (MapValue True False [] e)
          else if IsNull inp then Inr (MapValue False True [] e)
          else (case snd inp of
                  PMap kvs \<Rightarrow>
                    (case ValueFromTerraform_map sf e kvs of
                       Inl err \<Rightarrow> Inl err
                     | Inr elems \<Rightarrow> Inr (MapValue False False elems e))
                | _ \<Rightarrow> Inl AsError))"
| "ValueFromTerraform sf (ObjectType ats) inp =
     (case TerraformType (ObjectType ats) of
        None \<Rightarrow> Inl Panic
      | Some ot \<Rightarrow>
          if \<not> Is (fst inp) ot then Inl ShapeMismatch
          else if \<not> IsKnown inp then Inr (ObjectValue True False [] ats)
          else if IsNull inp then Inr (ObjectValue False True [] ats)
          else (case snd inp of
                  PMap kvs \<Rightarrow>
                    (case ValueFromTerraform_attrs sf ats kvs of
                       Inl err \<Rightarrow> Inl err
                     | Inr attributes \<Rightarrow> Inr (ObjectValue False False attributes ats))
                | _ \<Rightarrow> Inl AsError))"
| "ValueFromTerraform_elems sf e [] = Inr []"
| "ValueFromTerraform_elems sf e (v # vs) =
     (case ValueFromTerraform sf e v of
        Inl err \<Rightarrow> Inl err
      | Inr av \<Rightarrow>
          (case ValueFromTerraform_elems sf e vs of
             Inl err \<Rightarrow> Inl err
           | Inr avs \<Rightarrow> Inr (av # avs)))"
| "ValueFromTerraform_map sf e [] = Inr []"
| "ValueFromTerraform_map sf e (kv # kvs) =
     (case ValueFromTerraform sf e (snd kv) of
        Inl err \<Rightarrow> Inl err
      | Inr av \<Rightarrow>
          (case ValueFromTerraform_map sf e kvs of
             Inl err \<Rightarrow> Inl err
           | Inr avs \<Rightarrow> Inr ((fst kv, av) # avs)))"
| "ValueFromTerraform_attrs sf ats [] = Inr []"
| "ValueFromTerraform_attrs sf ats (kv # kvs) =
     (case map_of ats (fst kv) of
        None \<Rightarrow> Inl Panic
      | Some t \<Rightarrow>
          (case ValueFromTerraform sf t (snd kv) of
             Inl err \<Rightarrow> Inl err
           | Inr a \<Rightarrow>
               (case ValueFromTerraform_attrs sf ats kvs of
                  Inl err \<Rightarrow> Inl err
                | Inr as \<Rightarrow> Inr ((fst kv, a) # as))))"


subsection \<open>Encoding: ToTerraformValue\<close>

text \<open>
  \<open>ToTerraformValue\<close> returns the payload for \<open>tftypes.NewValue\<close>.
  \<^item> \<open>String\<close> and \<open>Number\<close> (types/string.go): null first, then unknown, then \<open>Value\<close>.
  \<^item> \<open>List\<close> (types/list.go), \<open>Map\<close> (types/map.go) and \<open>Object\<close>: unknown first, then
    null; then every element is encoded, validated against the wire type of the declared
    element type (\<open>tftypes.ValidateValue\<close>) and wrapped by \<open>tftypes.NewValue\<close>.  \<open>Object\<close>
    takes the type of attribute \<open>k\<close> from \<open>o.AttrTypes[k]\<close>: nil, and a panic, when it
    is missing.
\<close>



subsection \<open>Value equality\<close>

text \<open>
  \<open>Equal\<close> on values; \<open>None\<close> is a panic, as for types.
  \<^item> \<open>String.Equal\<close> (types/string.go): the other value is a \<open>String\<close>, the \<open>Unknown\<close>
    flags agree, the \<open>Null\<close> flags agree, and then \<open>s.Value == o.Value\<close>, whatever the
    flags are.
  \<^item> \<open>Number.Equal\<close>: the same, the payloads compared as: both nil, \<open>true\<close>; one nil,
    \<open>false\<close>; otherwise \<open>Cmp\<close>, the comparison of the two numbers.
  \<^item> \<open>List.Equal\<close> (types/list.go): flags, \<open>ElemType.Equal\<close>, \<open>len(Elems)\<close>, then the
    elements position by position.
  \<^item> \<open>Map.Equal\<close> (types/map.go): flags, \<open>ElemType.Equal\<close>, \<open>len(Elems)\<close>, then every
    key of the receiver looked up in the other map.
  \<^item> \<open>Object.Equal\<close>: flags, the two \<open>AttrTypes\<close> maps compared by the loop of
    \<open>ObjectType.Equal\<close>, then the \<open>Attrs\<close> maps as for \<open>Map\<close>.
\<close>

text \<open>
  Modelled from the spec: \<open>Bool.Equal\<close>, the equation for \<open>BoolValue\<close> (types/bool.go is
  not among the sources): "requires identical tri-state flag" and an identical payload,
  as \<open>String.Equal\<close> does.
\<close>

fun Equal_val :: "val \<Rightarrow> val \<Rightarrow> bool option"
and Equal_elems :: "val list \<Rightarrow> val list \<Rightarrow> bool option"
and Equal_keyed :: "(string \<times> val) list \<Rightarrow> (string \<times> val) list \<Rightarrow> bool option"
where
  "Equal_val (StringValue u n s) other =
     (case other of
        StringValue u' n' s' \<Rightarrow>
          if u \<noteq> u' then Some False
          else if n \<noteq> n' then Some False
          else Some (s = s')
      | _ \<Rightarrow> Some False)"
| "Equal_val (NumberValue u n x) other =
     (case other of
        NumberValue u' n' x' \<Rightarrow>
          if u \<noteq> u' then Some False
          else if n \<noteq> n' then Some False
          else if x = None \<and> x' = None then Some True
          else if x = None \<or> x' = None then Some False
          else Some (the x = the x')
      | _ \<Rightarrow> Some False)"
| "Equal_val (BoolValue u n b) other =
     (case other of
        BoolValue u' n' b' \<Rightarrow>
          if u \<noteq> u' then Some False
          else if n \<noteq> n' then Some False
          else Some (b = b')
      | _ \<Rightarrow> Some False)"
| "Equal_val (ListValue u n es et) other =
     (case other of
        ListValue u' n' es' et' \<Rightarrow>
          if u \<noteq> u' then Some False
          else if n \<noteq> n' then Some False
          else (case Equal et et' of
                  None \<Rightarrow> None
                | Some False \<Rightarrow> Some False
                | Some True \<Rightarrow>
                    if length es \<noteq> length es' then Some False
                    else Equal_elems es es')
      | _ \<Rightarrow> Some False)"
| "Equal_val (MapValue u n es et) other =
     (case other of
        MapValue u' n' es' et' \<Rightarrow>
          if u \<noteq> u' then Some False
          else if n \<noteq> n' then Some False
          else (case Equal et et' of
                  None \<Rightarrow> None
                | Some False \<Rightarrow> Some False
                | Some True \<Rightarrow>
                    if length es \<noteq> length es' then Some False
                    else Equal_keyed es es')
      | _ \<Rightarrow> Some False)"
| "Equal_val (ObjectValue u n ats tys) other =
     (case other of
        ObjectValue u' n' ats' tys' \<Rightarrow>
          if u \<noteq> u' then Some False
          else if n \<noteq> n' then Some False
          else if length tys \<noteq> length tys' then Some False
          else (case Equal_attrs tys tys' of
                  None \<Rightarrow> None
                | Some False \<Rightarrow> Some False
                | Some True \<Rightarrow>
                    if length ats \<noteq> length ats' then Some False
                    else Equal_keyed ats ats')
      | _ \<Rightarrow> Some False)"
| "Equal_elems [] os = Some True"
| "Equal_elems (lElem # es) [] = None"
| "Equal_elems (lElem # es) (oElem # os) =
     (case Equal_val lElem oElem of
        None \<Rightarrow> None
      | Some False \<Rightarrow> Some False
      | Some True \<Rightarrow> Equal_elems es os)"
| "Equal_keyed [] os = Some True"
| "Equal_keyed (kv # es) os =
     (case map_of os (fst kv) of
        None \<Rightarrow> Some False
      | Some oElem \<Rightarrow>
          (case Equal_val (snd kv) oElem of
             None \<Rightarrow> None
           | Some False \<Rightarrow> Some False
           | Some True \<Rightarrow> Equal_keyed es os))"


section \<open>Schemas and nested attributes (package schema)\<close>

text \<open>
  \<open>Attribute\<close> is a struct with the fields \<open>Type attr.Type\<close> and
  \<open>Attributes NestedAttributes\<close> (read by schema/schema.go and by the nested-attributes
  file) and descriptive fields that no modelled function reads; the two fields are the
  constructor's arguments.  \<open>NestedAttributes\<close> is an interface with four implementations,
  each embedding \<open>nestedAttributes\<close> (a \<open>map[string]Attribute\<close>); the list, set and map
  ones also hold \<open>min, max int\<close>.  \<open>NoNestedAttributes\<close> is the nil interface value.
\<close>

datatype attribute = Attribute ty nested_attributes
and nested_attributes =
    NoNestedAttributes
  | SingleNestedAttributes "(string \<times> attribute) list"
  | ListNestedAttributes "(string \<times> attribute) list" int int
  | SetNestedAttributes "(string \<times> attribute) list" int int
  | MapNestedAttributes "(string \<times> attribute) list" int int

record Schema =
  Attributes :: "(string \<times> attribute) list"
  Version :: "64 word"
  DeprecationMessage :: string
  Description :: string
  MarkdownDescription :: string

subsection \<open>Lowering to a plain Type\<close>

text \<open>
  \<open>nestedAttributes.AttributeType\<close>: for every \<open>name, attr\<close> of the map, \<open>attr.Type\<close> is
  stored under \<open>name\<close> when it is not nil, and then \<open>attr.Attributes.AttributeType()\<close>
  is stored under \<open>name\<close> when \<open>attr.Attributes\<close> is not nil (replacing the former);
  the result is \<open>types.ObjectType{AttrTypes: attrTypes}\<close>.

  \<open>AttributeType\<close> is the interface method: \<open>singleNestedAttributes\<close> inherits the
  method of the embedded \<open>nestedAttributes\<close>; \<open>listNestedAttributes\<close> returns
  \<open>types.ListType{ElemType: l.nestedAttributes.AttributeType()}\<close>; \<open>setNestedAttributes\<close>
  and \<open>mapNestedAttributes\<close> both \<open>return nil\<close> (each under a TODO comment).  The result
  is \<open>None\<close> for a call on the nil interface value (a panic).
\<close>

fun nestedAttributes_AttributeType :: "(string \<times> attribute) list \<Rightarrow> ty"
and attrTypes :: "(string \<times> attribute) list \<Rightarrow> (string \<times> ty) list"
and AttributeType :: "nested_attributes \<Rightarrow> ty option"
where
  "nestedAttributes_AttributeType n = ObjectType (attrTypes n)"
| "attrTypes [] = []"
| "attrTypes ((name, Attribute t nested) # rest) =
     (let first = (if t \<noteq> NilType then Some t else None);
          second = (if nested \<noteq> NoNestedAttributes then AttributeType nested else first)
      in case second of
           None \<Rightarrow> attrTypes rest
         | Some typ \<Rightarrow> (name, typ) # attrTypes rest)"
| "AttributeType NoNestedAttributes = None"
| "AttributeType (SingleNestedAttributes n) = Some (nestedAttributes_AttributeType n)"
| "AttributeType (ListNestedAttributes n mn mx) = Some (ListType (nestedAttributes_AttributeType n))"
| "AttributeType (SetNestedAttributes n mn mx) = Some NilType"
| "AttributeType (MapNestedAttributes n mn mx) = Some NilType"

text \<open>\<open>Schema.AttributeType\<close>: the same loop over \<open>s.Attributes\<close>.\<close>

definition Schema_AttributeType :: "Schema \<Rightarrow> ty" where
  "Schema_AttributeType s = ObjectType (attrTypes (Attributes s))"

subsection \<open>Path resolution\<close>

text \<open>
  What a step can return (Go: \<open>interface{}\<close>): the schema itself (where a walk starts),
  an \<open>Attribute\<close>, a \<open>nestedAttributes\<close> map, or an \<open>attr.Type\<close>, nil included.
\<close>

datatype node =
    NSchema Schema
  | NAttribute attribute
  | NnestedAttributes "(string \<times> attribute) list"
  | NType ty

text \<open>The step methods of \<open>Schema\<close> (schema/schema.go) and of the nested attributes.\<close>

definition Schema_ApplyTerraform5AttributePathStep :: "Schema \<Rightarrow> step \<Rightarrow> error + node" where
  "Schema_ApplyTerraform5AttributePathStep s st =
     (case st of
        AttributeName v \<Rightarrow>
          (case map_of (Attributes s) v of
             Some a \<Rightarrow> Inr (NAttribute a)
           | None \<Rightarrow> Inl AttributeNotFound)
      | _ \<Rightarrow> Inl StepKindMismatch)"

definition nestedAttributes_ApplyTerraform5AttributePathStep ::
  "(string \<times> attribute) list \<Rightarrow> step \<Rightarrow> error + node" where
  "nestedAttributes_ApplyTerraform5AttributePathStep n st =
     (case st of
        AttributeName a \<Rightarrow>
          (case map_of n a of
             None \<Rightarrow> Inl AttributeNotFound
           | Some res \<Rightarrow> Inr (NAttribute res))
      | _ \<Rightarrow> Inl StepKindMismatch)"

fun NestedAttributes_ApplyTerraform5AttributePathStep :: "nested_attributes \<Rightarrow> step \<Rightarrow> error + node" where
  "NestedAttributes_ApplyTerraform5AttributePathStep NoNestedAttributes st = Inl Panic"
| "NestedAttributes_ApplyTerraform5AttributePathStep (SingleNestedAttributes n) st =
     nestedAttributes_ApplyTerraform5AttributePathStep n st"
| "NestedAttributes_ApplyTerraform5AttributePathStep (ListNestedAttributes n mn mx) st =
     (case st of ElementKeyInt _ \<Rightarrow> Inr (NnestedAttributes n) | _ \<Rightarrow> Inl StepKindMismatch)"
| "NestedAttributes_ApplyTerraform5AttributePathStep (SetNestedAttributes n mn mx) st =
     (case st of ElementKeyValue \<Rightarrow> Inr (NnestedAttributes n) | _ \<Rightarrow> Inl StepKindMismatch)"
| "NestedAttributes_ApplyTerraform5AttributePathStep (MapNestedAttributes n mn mx) st =
     (case st of ElementKeyString _ \<Rightarrow> Inr (NnestedAttributes n) | _ \<Rightarrow> Inl StepKindMismatch)"

text \<open>
  Modelled from the spec: the step method of \<open>Attribute\<close> (schema/attribute.go is not
  among the sources).  The spec's path resolution steps "into a List element of a
  leaf-typed attribute": a step on a leaf attribute is the step on its Type, and a step
  on a nested group is the step on its nested attributes.
\<close>

definition Attribute_ApplyTerraform5AttributePathStep :: "attribute \<Rightarrow> step \<Rightarrow> error + node" where
  "Attribute_ApplyTerraform5AttributePathStep a st =
     (case a of
        Attribute t nested \<Rightarrow>
          if t \<noteq> NilType then
            (case ApplyTerraform5AttributePathStep t st of
               Inl err \<Rightarrow> Inl err
             | Inr t' \<Rightarrow> Inr (NType t'))
          else if nested \<noteq> NoNestedAttributes then
            NestedAttributes_ApplyTerraform5AttributePathStep nested st
          else Inl AttributeEmpty)"

text \<open>
  \<open>tftypes.WalkAttributePath(in, path)\<close> (terraform-plugin-go): with no step left it
  returns \<open>in\<close>; otherwise \<open>in\<close> must be an \<open>AttributePathStepper\<close> (nil is not), the first
  step is applied, and an error is returned with the path that remains.
\<close>

definition apply_step :: "node \<Rightarrow> step \<Rightarrow> error + node" where
  "apply_step nd st =
     (case nd of
        NSchema s \<Rightarrow> Schema_ApplyTerraform5AttributePathStep s st
      | NAttribute a \<Rightarrow> Attribute_ApplyTerraform5AttributePathStep a st
      | NnestedAttributes n \<Rightarrow> nestedAttributes_ApplyTerraform5AttributePathStep n st
      | NType t \<Rightarrow>
          if t = NilType then Inl ErrNotAttributePathStepper
          else (case ApplyTerraform5AttributePathStep t st of
                  Inl err \<Rightarrow> Inl err
                | Inr t' \<Rightarrow> Inr (NType t')))"

fun WalkAttributePath :: "node \<Rightarrow> step list \<Rightarrow> (step list \<times> error) + node" where
  "WalkAttributePath nd [] = Inr nd"
| "WalkAttributePath nd (st # path) =
     (case apply_step nd st of
        Inl err \<Rightarrow> Inl (st # path, err)
      | Inr next \<Rightarrow> WalkAttributePath next path)"

text \<open>
  \<open>Schema.AttributeAtPath\<close> (schema/schema.go): an error of the walk is wrapped; a result
  that is an \<open>attr.Type\<close> gives \<open>ErrPathInsideAtomicAttribute\<close>; a result that is not an
  \<open>Attribute\<close> gives "got unexpected type"; otherwise the Attribute is returned.
\<close>

definition AttributeAtPath :: "Schema \<Rightarrow> step list \<Rightarrow> error + attribute" where
  "AttributeAtPath s path =
     (case WalkAttributePath (NSchema s) path of
        Inl (remaining, err) \<Rightarrow> Inl (StillRemains remaining err)
      | Inr res \<Rightarrow>
          (case res of
             NType t \<Rightarrow> if t \<noteq> NilType then Inl ErrPathInsideAtomicAttribute else Inl UnexpectedType
           | NAttribute a \<Rightarrow> Inr a
           | _ \<Rightarrow> Inl UnexpectedType))"


section \<open>The reflection engine (package internal/reflect)\<close>

text \<open>
  Modelled from the spec: the engine (internal/reflect: \<open>Into\<close>, \<open>Struct\<close>,
  \<open>FromStruct\<close>) is not among the sources; only its test file is.  The definitions of
  this section follow section 4.4 of the spec and the expectations of
  internal/reflect/struct_test.go.
\<close>

text \<open>
  \<open>ObjectAsOptions\<close>, whose two fields \<open>Object.As\<close> hands on as \<open>reflect.Options\<close>: "When
  set to true, the type's empty value will be used.  When set to false, an error will be
  returned."  Go's zero value makes both false by default.
\<close>

record Options =
  UnhandledNullAsEmpty :: bool
  UnhandledUnknownAsEmpty :: bool

text \<open>
  Modelled from the spec: the native side of the engine (internal/reflect is not among
  the sources).  The native fields that a string attribute is decoded into in
  \<open>TestNewStruct_complex\<close>:
  a plain \<open>string\<close>, which can hold neither null nor unknown; a field that can hold
  unknown (\<open>unknownableString\<close>); one that can hold null (\<open>nullableString\<close>); and an
  \<open>attr.Value\<close> (\<open>types.String\<close>), which "itself knows how to decode a Value".
\<close>

datatype field = GoString | UnknownableString | NullableString | AttributeValue

datatype native =
    NativeString string
  | NativeUnknownable bool string
  | NativeNullable bool string
  | NativeAttributeValue val

fun can_hold_unknown :: "field \<Rightarrow> bool" where
  "can_hold_unknown GoString = False"
| "can_hold_unknown UnknownableString = True"
| "can_hold_unknown NullableString = False"
| "can_hold_unknown AttributeValue = True"

fun can_hold_null :: "field \<Rightarrow> bool" where
  "can_hold_null GoString = False"
| "can_hold_null UnknownableString = False"
| "can_hold_null NullableString = True"
| "can_hold_null AttributeValue = True"

text \<open>Modelled from the spec: the zero (empty) value of a field, its unknown and null
  sentinels ("receives the appropriate sentinel on Unknown/Null"), and the field holding
  a known string (internal/reflect is not among the sources).\<close>

fun empty_value :: "field \<Rightarrow> native" where
  "empty_value GoString = NativeString []"
| "empty_value UnknownableString = NativeUnknownable False []"
| "empty_value NullableString = NativeNullable False []"
| "empty_value AttributeValue = NativeAttributeValue (StringValue False False [])"

fun unknown_sentinel :: "field \<Rightarrow> native" where
  "unknown_sentinel UnknownableString = NativeUnknownable True []"
| "unknown_sentinel AttributeValue = NativeAttributeValue (StringValue True False [])"
| "unknown_sentinel f = empty_value f"

fun null_sentinel :: "field \<Rightarrow> native" where
  "null_sentinel NullableString = NativeNullable True []"
| "null_sentinel AttributeValue = NativeAttributeValue (StringValue False True [])"
| "null_sentinel f = empty_value f"

fun known_string :: "field \<Rightarrow> string \<Rightarrow> native" where
  "known_string GoString s = NativeString s"
| "known_string UnknownableString s = NativeUnknownable False s"
| "known_string NullableString s = NativeNullable False s"
| "known_string AttributeValue s = NativeAttributeValue (StringValue False False s)"

text \<open>
  Modelled from the spec: the decoding of one string attribute into a field
  (internal/reflect is not among the sources).  A field that can represent unknown (null)
  receives the sentinel; one that cannot is governed by the matching flag: "when the
  applicable flag is false, decoding an Unknown/Null into a field incapable of
  representing it fails with an explicit unhandled error; when true, the native field's
  zero/empty value is used instead".
\<close>

definition Into_field :: "Options \<Rightarrow> field \<Rightarrow> tfvalue \<Rightarrow> error + native" where
  "Into_field opts f v =
     (if \<not> IsKnown v then
        (if can_hold_unknown f then Inr (unknown_sentinel f)
         else if UnhandledUnknownAsEmpty opts then Inr (empty_value f)
         else Inl UnhandledNullOrUnknown)
      else if IsNull v then
        (if can_hold_null f then Inr (null_sentinel f)
         else if UnhandledNullAsEmpty opts then Inr (empty_value f)
         else Inl UnhandledNullOrUnknown)
      else case As_string v of
             Inl err \<Rightarrow> Inl err
           | Inr s \<Rightarrow> Inr (known_string f s))"

fun Into_fields ::
  "Options \<Rightarrow> (string \<times> field) list \<Rightarrow> (string \<times> tfvalue) list \<Rightarrow> error + (string \<times> native) list" where
  "Into_fields opts [] objectFields = Inr []"
| "Into_fields opts (nf # targetFields) objectFields =
     (case map_of objectFields (fst nf) of
        None \<Rightarrow> Inl Panic
      | Some v \<Rightarrow>
          (case Into_field opts (snd nf) v of
             Inl err \<Rightarrow> Inl err
           | Inr x \<Rightarrow>
               (case Into_fields opts targetFields objectFields of
                  Inl err \<Rightarrow> Inl err
                | Inr xs \<Rightarrow> Inr ((fst nf, x) # xs))))"

text \<open>
  Modelled from the spec: \<open>Struct\<close> (internal/reflect/struct.go is not among the
  sources).  The wire value must be an object (\<open>TestNewStruct_notAnObject\<close>); the
  \<open>tfsdk\<close> tags of the struct and the attribute names of the wire object must match
  exactly, and "any asymmetry fails immediately with an error enumerating both the names
  present only in the schema and the names present only in the native shape"; only then
  are the fields decoded.  \<open>targetFields\<close> are the struct's tagged fields.
\<close>

definition Struct :: "Options \<Rightarrow> (string \<times> field) list \<Rightarrow> tfvalue \<Rightarrow> error + (string \<times> native) list" where
  "Struct opts targetFields v =
     (case fst v of
        TfObject ots \<Rightarrow>
          (case As_map v of
             Inl err \<Rightarrow> Inl err
           | Inr objectFields \<Rightarrow>
               (let objectMissing = filter (\<lambda>n. n \<notin> set (map fst objectFields)) (map fst targetFields);
                    targetMissing = filter (\<lambda>n. n \<notin> set (map fst targetFields)) (map fst objectFields)
                in if objectMissing \<noteq> [] \<or> targetMissing \<noteq> []
                   then Inl (SchemaFieldMismatch objectMissing targetMissing)
                   else Into_fields opts targetFields objectFields))
      | _ \<Rightarrow> Inl NotAnObject)"

text \<open>Modelled from the spec: the message of the mismatch error (internal/reflect/struct.go
  is not among the sources), in the wording that the three tests
  \<open>TestNewStruct_objectMissingFields\<close>, \<open>TestNewStruct_structMissingProperties\<close> and
  \<open>TestNewStruct_objectMissingFieldsAndStructMissingProperties\<close> expect.\<close>

fun commaSeparatedString :: "string list \<Rightarrow> string" where
  "commaSeparatedString [] = []"
| "commaSeparatedString [n] = n"
| "commaSeparatedString (n # ns) = n @ '', '' @ commaSeparatedString ns"

definition mismatch_message :: "string list \<Rightarrow> string list \<Rightarrow> string" where
  "mismatch_message objectMissing targetMissing =
     ''mismatch between struct and object: '' @
     (if objectMissing \<noteq> []
      then ''Struct defines fields not found in object: '' @ commaSeparatedString objectMissing @ ''.''
      else []) @
     (if objectMissing \<noteq> [] \<and> targetMissing \<noteq> [] then '' '' else []) @
     (if targetMissing \<noteq> []
      then ''Object defines fields not found in struct: '' @ commaSeparatedString targetMissing @ ''.''
      else [])"

text \<open>
  Modelled from the spec: \<open>FromStruct\<close>, the encoding (internal/reflect/struct.go is not
  among the sources): "a native value that implements a Value-producing
  extensibility hook is used directly in place of generic structural recursion"
  (\<open>TestFromStruct_complex\<close>: the field holding \<open>types.String{Unknown: true}\<close> comes out
  as that value); the other fields become the String value of their state.
\<close>

fun FromValue :: "native \<Rightarrow> val" where
  "FromValue (NativeString s) = StringValue False False s"
| "FromValue (NativeUnknownable u s) = (if u then StringValue True False [] else StringValue False False s)"
| "FromValue (NativeNullable n s) = (if n then StringValue False True [] else StringValue False False s)"
| "FromValue (NativeAttributeValue v) = v"

definition FromStruct :: "(string \<times> ty) list \<Rightarrow> (string \<times> native) list \<Rightarrow> val" where
  "FromStruct attrTys flds =
     ObjectValue False False (map (\<lambda>nf. (fst nf, FromValue (snd nf))) flds) attrTys"

section \<open>Tri-state well-formedness of values\<close>

text \<open>
  Exactly one of Unknown, Null, Known: the two flags are never both set, and the payload
  is populated (differs from the zero value of its Go type) only when both flags are
  false.  For a container the same holds of every element.
\<close>

fun tri_state :: "val \<Rightarrow> bool"
and tri_state_elems :: "val list \<Rightarrow> bool"
and tri_state_keyed :: "(string \<times> val) list \<Rightarrow> bool" where
  "tri_state (StringValue u n s) = (\<not> (u \<and> n) \<and> (if u \<or> n then s = [] else True))"
| "tri_state (NumberValue u n x) = (\<not> (u \<and> n) \<and> (if u \<or> n then x = None else True))"
| "tri_state (BoolValue u n b) = (\<not> (u \<and> n) \<and> (if u \<or> n then b = False else True))"
| "tri_state (ListValue u n es et) =
     (\<not> (u \<and> n) \<and> (if u \<or> n then es = [] else tri_state_elems es))"
| "tri_state (MapValue u n es et) =
     (\<not> (u \<and> n) \<and> (if u \<or> n then es = [] else tri_state_keyed es))"
| "tri_state (ObjectValue u n ats tys) =
     (\<not> (u \<and> n) \<and> (if u \<or> n then ats = [] else tri_state_keyed ats))"
| "tri_state_elems [] = True"
| "tri_state_elems (v # vs) = (tri_state v \<and> tri_state_elems vs)"
| "tri_state_keyed [] = True"
| "tri_state_keyed (kv # kvs) = (tri_state (snd kv) \<and> tri_state_keyed kvs)"


section \<open>Values that conform to a Type\<close>



section \<open>Properties of type equality\<close>

lemma Equal_attrs_True_iff:
  "Equal_attrs ats bts = Some True \<longleftrightarrow>
     (\<forall>kv \<in> set ats. \<exists>a. map_of bts (fst kv) = Some a \<and> Equal (snd kv) a = Some True)"
  by (induction ats) (auto split: option.splits bool.splits)

lemma Equal_attrs_total:
  "(\<forall>kv \<in> set ats. \<forall>a. Equal (snd kv) a \<noteq> None) \<Longrightarrow> Equal_attrs ats bts \<noteq> None"
  by (induction ats) (auto simp del: not_None_eq split: option.splits bool.splits)

lemma wf_tys_iff: "wf_tys ats \<longleftrightarrow> (\<forall>kv \<in> set ats. wf_ty (snd kv))"
  by (induction ats) auto

lemma Equal_total: "wf_ty t \<Longrightarrow> Equal t u \<noteq> None"
proof (induction t arbitrary: u)
  case (ObjectType ats)
  have "\<forall>kv \<in> set ats. \<forall>a. Equal (snd kv) a \<noteq> None"
  proof (intro ballI allI)
    fix kv a assume kv: "kv \<in> set ats"
    then have "wf_ty (snd kv)" using ObjectType.prems by (simp add: wf_tys_iff)
    moreover have "snd kv \<in> Basic_BNFs.snds kv" by (cases kv) simp
    ultimately show "Equal (snd kv) a \<noteq> None" using ObjectType.IH kv by blast
  qed
  then have "Equal_attrs ats bts \<noteq> None" for bts by (rule Equal_attrs_total)
  then show ?case by (auto simp del: not_None_eq split: ty.splits)
qed (auto simp del: not_None_eq split: ty.splits)

lemma Equal_refl: "wf_ty t \<Longrightarrow> Equal t t = Some True"
proof (induction t)
  case (ObjectType ats)
  have d: "distinct (map fst ats)" using ObjectType.prems by simp
  have "\<forall>kv \<in> set ats. \<exists>a. map_of ats (fst kv) = Some a \<and> Equal (snd kv) a = Some True"
  proof
    fix kv assume kv: "kv \<in> set ats"
    then have "wf_ty (snd kv)" using ObjectType.prems by (simp add: wf_tys_iff)
    moreover have "snd kv \<in> Basic_BNFs.snds kv" by (cases kv) simp
    ultimately have "Equal (snd kv) (snd kv) = Some True" using ObjectType.IH kv by blast
    moreover have "map_of ats (fst kv) = Some (snd kv)" using d kv by (cases kv) simp
    ultimately show "\<exists>a. map_of ats (fst kv) = Some a \<and> Equal (snd kv) a = Some True" by blast
  qed
  then show ?case by (simp add: Equal_attrs_True_iff)
qed auto

lemma keys_eq:
  assumes "distinct (map fst ats)" "distinct (map fst bts)" "length bts = length ats"
    and "fst ` set ats \<subseteq> fst ` set bts"
  shows "fst ` set ats = fst ` set bts"
proof -
  have "card (fst ` set ats) = length ats" using assms(1) distinct_card[of "map fst ats"] by simp
  moreover have "card (fst ` set bts) = length bts" using assms(2) distinct_card[of "map fst bts"] by simp
  ultimately show ?thesis using assms(3,4) by (simp add: card_subset_eq)
qed

lemma Equal_sym_True: "wf_ty t \<Longrightarrow> wf_ty u \<Longrightarrow> Equal t u = Some True \<Longrightarrow> Equal u t = Some True"
proof (induction t arbitrary: u)
  case (ObjectType ats)
  from ObjectType.prems(3) obtain bts where u: "u = ObjectType bts"
    by (cases u) auto
  have len: "length bts = length ats" and E: "Equal_attrs ats bts = Some True"
    using ObjectType.prems(3) u by (auto split: if_splits)
  have da: "distinct (map fst ats)" and db: "distinct (map fst bts)"
    using ObjectType.prems u by auto
  have fwd: "\<forall>kv \<in> set ats. \<exists>a. map_of bts (fst kv) = Some a \<and> Equal (snd kv) a = Some True"
    using E by (simp add: Equal_attrs_True_iff)
  then have "fst ` set ats \<subseteq> fst ` set bts"
    by (auto dest!: bspec map_of_SomeD intro: rev_image_eqI)
  then have keys: "fst ` set ats = fst ` set bts" using da db len by (rule keys_eq[rotated 3])
  have "\<forall>kv \<in> set bts. \<exists>a. map_of ats (fst kv) = Some a \<and> Equal (snd kv) a = Some True"
  proof
    fix kv assume kv: "kv \<in> set bts"
    then have "fst kv \<in> fst ` set ats" using keys by auto
    then obtain kv' where kv': "kv' \<in> set ats" "fst kv' = fst kv" by auto
    from fwd kv' obtain a where a: "map_of bts (fst kv) = Some a" "Equal (snd kv') a = Some True"
      by force
    have "map_of bts (fst kv) = Some (snd kv)" using db kv by (cases kv) simp
    then have "a = snd kv" using a by simp
    have w1: "wf_ty (snd kv')" using ObjectType.prems(1) kv' by (simp add: wf_tys_iff)
    have w2: "wf_ty (snd kv)" using ObjectType.prems(2) u kv by (simp add: wf_tys_iff)
    have "snd kv' \<in> Basic_BNFs.snds kv'" by (cases kv') simp
    then have "Equal (snd kv) (snd kv') = Some True"
      using ObjectType.IH[OF kv'(1) _ w1 w2] a \<open>a = snd kv\<close> by simp
    moreover have "map_of ats (fst kv) = Some (snd kv')" using da kv' by (cases kv') auto
    ultimately show "\<exists>a. map_of ats (fst kv) = Some a \<and> Equal (snd kv) a = Some True" by blast
  qed
  then show ?case using u len by (simp add: Equal_attrs_True_iff)
qed (auto split: ty.splits if_splits)

lemma Equal_sym: "wf_ty t \<Longrightarrow> wf_ty u \<Longrightarrow> Equal t u = Equal u t"
proof -
  assume w: "wf_ty t" "wf_ty u"
  obtain a b where ab: "Equal t u = Some a" "Equal u t = Some b"
    using Equal_total[OF w(1), of u] Equal_total[OF w(2), of t] by auto
  show ?thesis using ab Equal_sym_True[OF w] Equal_sym_True[OF w(2) w(1)] by (cases a; cases b) auto
qed

lemma Equal_order_independent:
  assumes "wf_ty (ObjectType ats)" "wf_ty (ObjectType bts)" "set ats = set bts"
  shows "Equal (ObjectType ats) (ObjectType bts) = Some True"
proof -
  have da: "distinct (map fst ats)" and db: "distinct (map fst bts)" using assms by auto
  have "distinct ats" "distinct bts" using da db by (auto simp: distinct_map)
  then have len: "length bts = length ats" using assms(3) by (metis distinct_card)
  have "\<forall>kv \<in> set ats. \<exists>a. map_of bts (fst kv) = Some a \<and> Equal (snd kv) a = Some True"
  proof
    fix kv assume kv: "kv \<in> set ats"
    then have "wf_ty (snd kv)" using assms(1) by (simp add: wf_tys_iff)
    then have "Equal (snd kv) (snd kv) = Some True" by (rule Equal_refl)
    moreover have "map_of bts (fst kv) = Some (snd kv)" using db kv assms(3) by (cases kv) simp
    ultimately show "\<exists>a. map_of bts (fst kv) = Some a \<and> Equal (snd kv) a = Some True" by blast
  qed
  then show ?thesis using len by (simp add: Equal_attrs_True_iff)
qed


text \<open>
  Claim C5.  For all Types built from the six variants (\<open>wf_ty\<close>), \<open>Equal\<close> is
  reflexive and symmetric.  It recurses structurally: two list (map) types compare as
  their element types do, and two object types are equal exactly when they have the same
  number of attributes and every attribute of the first has an equal type under the same
  name in the second.  The order of the entries of an attribute map is irrelevant: two
  object types with the same entries are equal.  It is variant-sensitive: an object, a
  list and a map type are never equal to one another, whatever their components.
  \<open>ObjectType{a: String}\<close> and \<open>ObjectType{a: String, b: Bool}\<close> are unequal, either
  way round.
\<close>

theorem Type_Equal_laws:
  "(wf_ty t1 \<longrightarrow> Equal t1 t1 = Some True)
   \<and> (wf_ty t1 \<and> wf_ty t2 \<longrightarrow> Equal t1 t2 = Equal t2 t1)
   \<and> (e \<noteq> NilType \<longrightarrow> Equal (ListType e) (ListType e') = Equal e e')
   \<and> (e \<noteq> NilType \<longrightarrow> Equal (MapType e) (MapType e') = Equal e e')
   \<and> (Equal (ObjectType ats) (ObjectType bts) = Some True \<longleftrightarrow>
        length bts = length ats \<and>
        (\<forall>kv \<in> set ats. \<exists>b. map_of bts (fst kv) = Some b \<and> Equal (snd kv) b = Some True))
   \<and> (wf_ty (ObjectType ats) \<and> wf_ty (ObjectType bts) \<and> set ats = set bts \<longrightarrow>
        Equal (ObjectType ats) (ObjectType bts) = Some True)
   \<and> Equal (ObjectType ats) (ListType e) = Some False
   \<and> Equal (ObjectType ats) (MapType e) = Some False
   \<and> Equal (ListType e) (ObjectType ats) = Some False
   \<and> Equal (ListType e) (MapType e') = Some False
   \<and> Equal (MapType e) (ObjectType ats) = Some False
   \<and> Equal (MapType e) (ListType e') = Some False
   \<and> Equal (ObjectType [(''a'', StringType)]) (ObjectType [(''a'', StringType), (''b'', BoolType)]) = Some False
   \<and> Equal (ObjectType [(''a'', StringType), (''b'', BoolType)]) (ObjectType [(''a'', StringType)]) = Some False"
proof -
  have 1: "wf_ty t1 \<longrightarrow> Equal t1 t1 = Some True" by (simp add: Equal_refl)
  have 2: "wf_ty t1 \<and> wf_ty t2 \<longrightarrow> Equal t1 t2 = Equal t2 t1" by (simp add: Equal_sym)
  have 3: "Equal (ObjectType ats) (ObjectType bts) = Some True \<longleftrightarrow>
        length bts = length ats \<and>
        (\<forall>kv \<in> set ats. \<exists>b. map_of bts (fst kv) = Some b \<and> Equal (snd kv) b = Some True)"
    by (simp add: Equal_attrs_True_iff)
  have 4: "wf_ty (ObjectType ats) \<and> wf_ty (ObjectType bts) \<and> set ats = set bts \<longrightarrow>
        Equal (ObjectType ats) (ObjectType bts) = Some True"
    using Equal_order_independent by blast
  show ?thesis
    apply (intro conjI)
    apply (rule 1)
    apply (rule 2)
    apply simp
    apply simp
    apply (rule 3)
    apply (rule 4)
    apply simp_all
    done
qed

theorem Type_Equal_laws_witness:
  "wf_ty (ObjectType [(''a'', StringType), (''b'', ListType BoolType)])
   \<and> wf_ty (ObjectType [(''b'', ListType BoolType), (''a'', StringType)])
   \<and> set [(''a'', StringType), (''b'', ListType BoolType)] = set [(''b'', ListType BoolType), (''a'', StringType)]
   \<and> BoolType \<noteq> NilType
   \<and> Equal (ObjectType [(''a'', StringType), (''b'', ListType BoolType)])
            (ObjectType [(''a'', StringType), (''b'', ListType BoolType)]) = Some True
   \<and> Equal (ObjectType [(''a'', StringType), (''b'', ListType BoolType)])
            (ObjectType [(''b'', ListType BoolType), (''a'', StringType)]) = Some True
   \<and> Equal (ObjectType [(''b'', ListType BoolType), (''a'', StringType)])
            (ObjectType [(''a'', StringType), (''b'', ListType BoolType)]) = Some True
   \<and> Equal (ListType BoolType) (ListType NumberType) = Some False"
  using Type_Equal_laws[of "ObjectType [(''a'', StringType), (''b'', ListType BoolType)]"
      "ObjectType [(''b'', ListType BoolType), (''a'', StringType)]" BoolType NumberType
      "[(''a'', StringType), (''b'', ListType BoolType)]" "[(''b'', ListType BoolType), (''a'', StringType)]"]
  by auto


section \<open>Properties of path steps on types\<close>

lemma container_steps:
  "ApplyTerraform5AttributePathStep (ListType e) (ElementKeyInt i) = Inr e"
  "(\<forall>i. st \<noteq> ElementKeyInt i) \<Longrightarrow> ApplyTerraform5AttributePathStep (ListType e) st = Inl StepKindMismatch"
  "ApplyTerraform5AttributePathStep (MapType e) (ElementKeyString k) = Inr e"
  "(\<forall>k. st \<noteq> ElementKeyString k) \<Longrightarrow> ApplyTerraform5AttributePathStep (MapType e) st = Inl StepKindMismatch"
  "map_of ats n = Some t \<Longrightarrow> ApplyTerraform5AttributePathStep (ObjectType ats) (AttributeName n) = Inr t"
  "(\<forall>n. st \<noteq> AttributeName n) \<Longrightarrow> ApplyTerraform5AttributePathStep (ObjectType ats) st = Inl StepKindMismatch"
  "map_of ats n = None \<Longrightarrow> ApplyTerraform5AttributePathStep (ObjectType ats) (AttributeName n) = Inr NilType"
  by (auto simp: ListType_ApplyTerraform5AttributePathStep_def MapType_ApplyTerraform5AttributePathStep_def
      ObjectType_ApplyTerraform5AttributePathStep_def split: step.splits)


text \<open>
  Claim C4.  \<open>ObjectType.ApplyTerraform5AttributePathStep\<close> with an \<open>AttributeName\<close> step
  for a name that is not an attribute of the object returns \<open>(nil, nil)\<close>: a nil
  \<open>attr.Type\<close> and no error, where the claim asks for a not-found error.
\<close>

theorem ObjectType_step_missing_attribute_returns_nil:
  "ApplyTerraform5AttributePathStep (ObjectType [(''a'', StringType)]) (AttributeName ''b'') = Inr NilType"
  by (simp add: ObjectType_ApplyTerraform5AttributePathStep_def)

section \<open>Properties of the lowering of nested attributes\<close>

lemma attrTypes_keys: "fst ` set (attrTypes n) \<subseteq> fst ` set n"
proof (induction n)
  case Nil
  then show ?case by simp
next
  case (Cons a n)
  obtain k t nested where a: "a = (k, Attribute t nested)"
    by (cases a, rename_tac k atr, case_tac atr) auto
  show ?case using Cons.IH unfolding a
    by (auto simp: Let_def split: option.splits)
qed

lemma map_of_attrTypes:
  "distinct (map fst n) \<Longrightarrow>
   map_of (attrTypes n) name =
     (case map_of n name of
        None \<Rightarrow> None
      | Some (Attribute t nested) \<Rightarrow>
          if nested \<noteq> NoNestedAttributes then AttributeType nested
          else if t \<noteq> NilType then Some t else None)"
proof (induction n)
  case Nil
  then show ?case by simp
next
  case (Cons a n)
  obtain k t nested where a: "a = (k, Attribute t nested)"
    by (cases a, rename_tac k atr, case_tac atr) auto
  have "k \<notin> fst ` set n" using Cons.prems a by simp
  then have notin: "k \<notin> fst ` set (attrTypes n)" using attrTypes_keys[of n] by blast
  then have none: "map_of (attrTypes n) k = None" by (simp add: map_of_eq_None_iff)
  have IH: "map_of (attrTypes n) name =
     (case map_of n name of
        None \<Rightarrow> None
      | Some (Attribute t nested) \<Rightarrow>
          if nested \<noteq> NoNestedAttributes then AttributeType nested
          else if t \<noteq> NilType then Some t else None)"
    using Cons by simp
  show ?case
  proof (cases "name = k")
    case True
    then show ?thesis using none unfolding a
      by (cases nested) (auto simp: Let_def)
  next
    case False
    then show ?thesis using IH unfolding a
      by (auto simp: Let_def split: option.splits)
  qed
qed


text \<open>
  Claim C1, as the claim states it, fails for Map nesting: \<open>mapNestedAttributes.AttributeType\<close>
  returns nil, not the Map of the children's Object.
\<close>

theorem MapNestedAttributes_AttributeType_is_nil:
  "AttributeType (MapNestedAttributes [(''a'', Attribute StringType NoNestedAttributes)] 0 0)
     \<noteq> Some (MapType (nestedAttributes_AttributeType [(''a'', Attribute StringType NoNestedAttributes)]))"
  by simp


text \<open>
  Claim C1, amended.  \<open>AttributeType\<close> of a nested-attribute group wraps the Object Type
  built from the group's children according to the nesting mode: Single yields that
  Object, List yields List-of-that-Object, and both Set and Map yield nil, no valid Type.
  The Object built from the children has, under the name of each child, the lowering of
  the child's nested group when the child has one, otherwise the child's Type when it has
  one, and no entry otherwise.
\<close>

theorem NestedAttributes_AttributeType_by_mode:
  "AttributeType (SingleNestedAttributes n) = Some (ObjectType (attrTypes n))
   \<and> AttributeType (ListNestedAttributes n mn mx) = Some (ListType (ObjectType (attrTypes n)))
   \<and> AttributeType (SetNestedAttributes n mn mx) = Some NilType
   \<and> AttributeType (MapNestedAttributes n mn mx) = Some NilType
   \<and> (distinct (map fst n) \<longrightarrow>
        (\<forall>name. map_of (attrTypes n) name =
           (case map_of n name of
              None \<Rightarrow> None
            | Some (Attribute t nested) \<Rightarrow>
                if nested \<noteq> NoNestedAttributes then AttributeType nested
                else if t \<noteq> NilType then Some t else None)))"
  using map_of_attrTypes[of n] by simp

theorem NestedAttributes_AttributeType_by_mode_witness:
  "distinct (map fst [(''name'', Attribute StringType NoNestedAttributes),
                      (''disks'', Attribute NilType (ListNestedAttributes [(''id'', Attribute NumberType NoNestedAttributes)] 0 0))])
   \<and> AttributeType (SingleNestedAttributes [(''name'', Attribute StringType NoNestedAttributes),
                      (''disks'', Attribute NilType (ListNestedAttributes [(''id'', Attribute NumberType NoNestedAttributes)] 0 0))])
      = Some (ObjectType [(''name'', StringType), (''disks'', ListType (ObjectType [(''id'', NumberType)]))])
   \<and> map_of (attrTypes [(''name'', Attribute StringType NoNestedAttributes),
                      (''disks'', Attribute NilType (ListNestedAttributes [(''id'', Attribute NumberType NoNestedAttributes)] 0 0))]) ''disks''
      = Some (ListType (ObjectType [(''id'', NumberType)]))"
  using NestedAttributes_AttributeType_by_mode[of "[(''name'', Attribute StringType NoNestedAttributes),
                      (''disks'', Attribute NilType (ListNestedAttributes [(''id'', Attribute NumberType NoNestedAttributes)] 0 0))]" 0 0]
  by simp


section \<open>Properties of value equality\<close>

text \<open>
  Claim C10.  \<open>Equal\<close> compares the residual payload even when both values are Null or
  both Unknown: two \<open>String\<close> values with the same flags are equal exactly when their
  \<open>Value\<close> fields are, so two Null (two Unknown) strings with different \<open>Value\<close> are
  unequal; and two Null \<open>List\<close> values of the same element type with different residual
  \<open>Elems\<close> (of different length, or with an unequal element) are unequal.
\<close>

theorem Equal_compares_residual_payload:
  "Equal_val (StringValue u n s) (StringValue u n s') = Some (s = s')
   \<and> Equal_val (StringValue False True ''a'') (StringValue False True ''b'') = Some False
   \<and> Equal_val (StringValue True False ''a'') (StringValue True False ''b'') = Some False
   \<and> Equal_val (ListValue False True [StringValue False False ''a''] StringType)
                (ListValue False True [] StringType) = Some False
   \<and> Equal_val (ListValue False True [StringValue False False ''a''] StringType)
                (ListValue False True [StringValue False False ''b''] StringType) = Some False"
  by simp


section \<open>Properties of decoding\<close>

lemma Is_TfMap_any: "Is wt (TfMap x) \<Longrightarrow> Is_any_Map wt"
  by (cases wt) (auto simp: Is_any_Map_def)


text \<open>
  Claim C2, as the claim states it, fails for the container types: an unknown wire value
  whose wire type is not the List's (a null one whose wire type is not the Map's) is
  answered with a shape-mismatch error.
\<close>

theorem ValueFromTerraform_container_checks_type_first:
  "ValueFromTerraform (\<lambda>x. x) (ListType StringType) (TfString, PUnknown) = Inl ShapeMismatch
   \<and> ValueFromTerraform (\<lambda>x. x) (MapType StringType) (TfList TfString, PNil) = Inl ShapeMismatch"
  by (simp add: Is_any_Map_def)


text \<open>
  Claim C2, amended.  For an unknown wire value, and for a null one, the three
  primitive Types return the Unknown (Null) Value whatever the wire type of the value is.
  The container Types \<open>ListType\<close>, \<open>MapType\<close> and \<open>ObjectType\<close> compare the wire type of
  the value with their own wire type first: when it matches they return the Unknown
  (Null) Value without looking at the payload, and when it does not they return a
  shape-mismatch error, also for an unknown or null value.
\<close>

theorem ValueFromTerraform_unknown_or_null:
  "(\<not> IsKnown inp \<longrightarrow>
      ValueFromTerraform sf StringType inp = Inr (StringValue True False [])
    \<and> ValueFromTerraform sf NumberType inp = Inr (NumberValue True False None)
    \<and> ValueFromTerraform sf BoolType inp = Inr (BoolValue True False False)
    \<and> (TerraformType (ListType e) = Some lt \<longrightarrow>
         ValueFromTerraform sf (ListType e) inp =
           (if Is (fst inp) lt then Inr (ListValue True False [] e) else Inl ShapeMismatch))
    \<and> (TerraformType (MapType e) = Some mt \<longrightarrow>
         ValueFromTerraform sf (MapType e) inp =
           (if Is (fst inp) mt then Inr (MapValue True False [] e) else Inl ShapeMismatch))
    \<and> (TerraformType (ObjectType ats) = Some ot \<longrightarrow>
         ValueFromTerraform sf (ObjectType ats) inp =
           (if Is (fst inp) ot then Inr (ObjectValue True False [] ats) else Inl ShapeMismatch)))
   \<and> (IsKnown inp \<and> IsNull inp \<longrightarrow>
      ValueFromTerraform sf StringType inp = Inr (StringValue False True [])
    \<and> ValueFromTerraform sf NumberType inp = Inr (NumberValue False True None)
    \<and> ValueFromTerraform sf BoolType inp = Inr (BoolValue False True False)
    \<and> (TerraformType (ListType e) = Some lt \<longrightarrow>
         ValueFromTerraform sf (ListType e) inp =
           (if Is (fst inp) lt then Inr (ListValue False True [] e) else Inl ShapeMismatch))
    \<and> (TerraformType (MapType e) = Some mt \<longrightarrow>
         ValueFromTerraform sf (MapType e) inp =
           (if Is (fst inp) mt then Inr (MapValue False True [] e) else Inl ShapeMismatch))
    \<and> (TerraformType (ObjectType ats) = Some ot \<longrightarrow>
         ValueFromTerraform sf (ObjectType ats) inp =
           (if Is (fst inp) ot then Inr (ObjectValue False True [] ats) else Inl ShapeMismatch)))"
proof -
  have m: "TerraformType (MapType e) = Some mt \<Longrightarrow> Is (fst inp) mt \<Longrightarrow> Is_any_Map (fst inp)"
    by (auto split: option.splits dest: Is_TfMap_any)
  show ?thesis
    using m
    by (auto simp: stringValueFromTerraform_def numberValueFromTerraform_def boolValueFromTerraform_def
        simp del: TerraformType.simps)
qed

theorem ValueFromTerraform_unknown_or_null_witness:
  "\<not> IsKnown (TfNumber, PUnknown) \<and> IsKnown (TfList TfString, PNil) \<and> IsNull (TfList TfString, PNil)
   \<and> TerraformType (ListType StringType) = Some (TfList TfString)
   \<and> TerraformType (MapType StringType) = Some (TfMap TfString)
   \<and> TerraformType (ObjectType [(''a'', BoolType)]) = Some (TfObject [(''a'', TfBool)])
   \<and> ValueFromTerraform (\<lambda>x. x) StringType (TfNumber, PUnknown) = Inr (StringValue True False [])
   \<and> ValueFromTerraform (\<lambda>x. x) (ListType StringType) (TfNumber, PUnknown) = Inl ShapeMismatch
   \<and> ValueFromTerraform (\<lambda>x. x) (ListType StringType) (TfList TfString, PNil) = Inr (ListValue False True [] StringType)
   \<and> ValueFromTerraform (\<lambda>x. x) (MapType StringType) (TfList TfString, PNil) = Inl ShapeMismatch
   \<and> ValueFromTerraform (\<lambda>x. x) (ObjectType [(''a'', BoolType)]) (TfList TfString, PNil) = Inl ShapeMismatch
   \<and> ValueFromTerraform (\<lambda>x. x) BoolType (TfList TfString, PNil) = Inr (BoolValue False True False)"
  using ValueFromTerraform_unknown_or_null[where inp = "(TfNumber, PUnknown)" and sf = "\<lambda>x. x" and e = StringType
            and lt = "TfList TfString" and mt = "TfMap TfString"
            and ats = "[(''a'', BoolType)]" and ot = "TfObject [(''a'', TfBool)]"]
        ValueFromTerraform_unknown_or_null[where inp = "(TfList TfString, PNil)" and sf = "\<lambda>x. x" and e = StringType
            and lt = "TfList TfString" and mt = "TfMap TfString"
            and ats = "[(''a'', BoolType)]" and ot = "TfObject [(''a'', TfBool)]"]
  by (simp add: IsKnown_def IsNull_def)


section \<open>Tri-state exclusivity\<close>





text \<open>
  A native field that holds an \<open>attr.Value\<close> is used directly by \<open>FromStruct\<close>: a value
  with both flags set comes out as it went in.
\<close>

lemma FromStruct_passes_values_through:
  "\<not> tri_state (FromStruct [(''a'', StringType)] [(''a'', NativeAttributeValue (StringValue True True []))])"
  by (simp add: FromStruct_def)




section \<open>The round trip through the wire encoding\<close>


















section \<open>Properties of path resolution in a schema\<close>

text \<open>
  Claim C7, as the claim states it, fails at its own example: resolving the path
  \<open>["a", "b"]\<close> against the schema \<open>{a: String}\<close> fails inside the walk, where the step
  \<open>"b"\<close> is applied to the String type, and \<open>AttributeAtPath\<close> returns that step error
  wrapped with the remaining path, not \<open>ErrPathInsideAtomicAttribute\<close>.
\<close>

theorem AttributeAtPath_into_primitive:
  "AttributeAtPath \<lparr>Attributes = [(''a'', Attribute StringType NoNestedAttributes)], Version = 0,
                     DeprecationMessage = [], Description = [], MarkdownDescription = []\<rparr>
                   [AttributeName ''a'', AttributeName ''b'']
     = Inl (StillRemains [AttributeName ''b''] StepKindMismatch)"
  by (simp add: AttributeAtPath_def apply_step_def Schema_ApplyTerraform5AttributePathStep_def
      Attribute_ApplyTerraform5AttributePathStep_def)

lemma AttributeAtPath_inside_iff:
  "AttributeAtPath s path = Inl ErrPathInsideAtomicAttribute \<longleftrightarrow>
     (\<exists>t. WalkAttributePath (NSchema s) path = Inr (NType t) \<and> t \<noteq> NilType)"
  by (auto simp: AttributeAtPath_def split: sum.splits node.splits prod.splits)


text \<open>
  Claim C7, amended.  \<open>AttributeAtPath\<close> returns \<open>ErrPathInsideAtomicAttribute\<close> exactly
  when the walk succeeds and ends at an \<open>attr.Type\<close>: so it does for the element of a
  List- or Map-typed leaf attribute and for an existing attribute of an Object-typed
  leaf attribute.  A path that names an attribute that the schema, or a single nested
  group, does not have returns a not-found error, wrapped with the remaining path.  A
  path that steps
  into a primitive-typed attribute returns the error of that step, wrapped with the
  remaining path.
\<close>

theorem AttributeAtPath_failure_modes:
  "(AttributeAtPath s path = Inl ErrPathInsideAtomicAttribute \<longleftrightarrow>
     (\<exists>t. WalkAttributePath (NSchema s) path = Inr (NType t) \<and> t \<noteq> NilType))
   \<and> (map_of (Attributes s) n = None \<longrightarrow>
        AttributeAtPath s (AttributeName n # rest) = Inl (StillRemains (AttributeName n # rest) AttributeNotFound))
   \<and> (map_of (Attributes s) n = Some (Attribute NilType (SingleNestedAttributes grp)) \<and> map_of grp k = None \<longrightarrow>
        AttributeAtPath s (AttributeName n # AttributeName k # rest)
          = Inl (StillRemains (AttributeName k # rest) AttributeNotFound))
   \<and> (map_of (Attributes s) n = Some (Attribute (ListType e) nested) \<and> e \<noteq> NilType \<longrightarrow>
        AttributeAtPath s [AttributeName n, ElementKeyInt i] = Inl ErrPathInsideAtomicAttribute)
   \<and> (map_of (Attributes s) n = Some (Attribute (MapType e) nested) \<and> e \<noteq> NilType \<longrightarrow>
        AttributeAtPath s [AttributeName n, ElementKeyString k] = Inl ErrPathInsideAtomicAttribute)
   \<and> (map_of (Attributes s) n = Some (Attribute (ObjectType ats) nested) \<and> map_of ats k = Some e \<and> e \<noteq> NilType \<longrightarrow>
        AttributeAtPath s [AttributeName n, AttributeName k] = Inl ErrPathInsideAtomicAttribute)
   \<and> (map_of (Attributes s) n = Some (Attribute p nested) \<and> (p = StringType \<or> p = NumberType \<or> p = BoolType) \<longrightarrow>
        AttributeAtPath s (AttributeName n # st # rest) = Inl (StillRemains (st # rest) StepKindMismatch))"
  apply (intro conjI)
        apply (rule AttributeAtPath_inside_iff)
       apply (simp add: AttributeAtPath_def apply_step_def Schema_ApplyTerraform5AttributePathStep_def)
      apply (simp add: AttributeAtPath_def apply_step_def Schema_ApplyTerraform5AttributePathStep_def
      Attribute_ApplyTerraform5AttributePathStep_def nestedAttributes_ApplyTerraform5AttributePathStep_def)
     apply (simp add: AttributeAtPath_def apply_step_def Schema_ApplyTerraform5AttributePathStep_def
      Attribute_ApplyTerraform5AttributePathStep_def ListType_ApplyTerraform5AttributePathStep_def)
    apply (simp add: AttributeAtPath_def apply_step_def Schema_ApplyTerraform5AttributePathStep_def
      Attribute_ApplyTerraform5AttributePathStep_def MapType_ApplyTerraform5AttributePathStep_def)
   apply (simp add: AttributeAtPath_def apply_step_def Schema_ApplyTerraform5AttributePathStep_def
      Attribute_ApplyTerraform5AttributePathStep_def ObjectType_ApplyTerraform5AttributePathStep_def)
  apply (auto simp add: AttributeAtPath_def apply_step_def Schema_ApplyTerraform5AttributePathStep_def
      Attribute_ApplyTerraform5AttributePathStep_def)
  done

theorem AttributeAtPath_failure_modes_witness:
  "map_of (Attributes \<lparr>Attributes = [(''a'', Attribute (ListType StringType) NoNestedAttributes),
                                     (''m'', Attribute (MapType StringType) NoNestedAttributes),
                                     (''o'', Attribute (ObjectType [(''x'', BoolType)]) NoNestedAttributes),
                                     (''s'', Attribute StringType NoNestedAttributes),
                                     (''g'', Attribute NilType (SingleNestedAttributes [(''id'', Attribute NumberType NoNestedAttributes)]))],
                       Version = 0, DeprecationMessage = [], Description = [], MarkdownDescription = []\<rparr>) ''b'' = None
   \<and> AttributeAtPath \<lparr>Attributes = [(''a'', Attribute (ListType StringType) NoNestedAttributes),
                                     (''m'', Attribute (MapType StringType) NoNestedAttributes),
                                     (''o'', Attribute (ObjectType [(''x'', BoolType)]) NoNestedAttributes),
                                     (''s'', Attribute StringType NoNestedAttributes),
                                     (''g'', Attribute NilType (SingleNestedAttributes [(''id'', Attribute NumberType NoNestedAttributes)]))],
                       Version = 0, DeprecationMessage = [], Description = [], MarkdownDescription = []\<rparr>
         [AttributeName ''b''] = Inl (StillRemains [AttributeName ''b''] AttributeNotFound)
   \<and> AttributeAtPath \<lparr>Attributes = [(''a'', Attribute (ListType StringType) NoNestedAttributes),
                                     (''m'', Attribute (MapType StringType) NoNestedAttributes),
                                     (''o'', Attribute (ObjectType [(''x'', BoolType)]) NoNestedAttributes),
                                     (''s'', Attribute StringType NoNestedAttributes),
                                     (''g'', Attribute NilType (SingleNestedAttributes [(''id'', Attribute NumberType NoNestedAttributes)]))],
                       Version = 0, DeprecationMessage = [], Description = [], MarkdownDescription = []\<rparr>
         [AttributeName ''a'', ElementKeyInt 0] = Inl ErrPathInsideAtomicAttribute
   \<and> AttributeAtPath \<lparr>Attributes = [(''a'', Attribute (ListType StringType) NoNestedAttributes),
                                     (''m'', Attribute (MapType StringType) NoNestedAttributes),
                                     (''o'', Attribute (ObjectType [(''x'', BoolType)]) NoNestedAttributes),
                                     (''s'', Attribute StringType NoNestedAttributes),
                                     (''g'', Attribute NilType (SingleNestedAttributes [(''id'', Attribute NumberType NoNestedAttributes)]))],
                       Version = 0, DeprecationMessage = [], Description = [], MarkdownDescription = []\<rparr>
         [AttributeName ''m'', ElementKeyString ''k''] = Inl ErrPathInsideAtomicAttribute
   \<and> AttributeAtPath \<lparr>Attributes = [(''a'', Attribute (ListType StringType) NoNestedAttributes),
                                     (''m'', Attribute (MapType StringType) NoNestedAttributes),
                                     (''o'', Attribute (ObjectType [(''x'', BoolType)]) NoNestedAttributes),
                                     (''s'', Attribute StringType NoNestedAttributes),
                                     (''g'', Attribute NilType (SingleNestedAttributes [(''id'', Attribute NumberType NoNestedAttributes)]))],
                       Version = 0, DeprecationMessage = [], Description = [], MarkdownDescription = []\<rparr>
         [AttributeName ''o'', AttributeName ''x''] = Inl ErrPathInsideAtomicAttribute
   \<and> AttributeAtPath \<lparr>Attributes = [(''a'', Attribute (ListType StringType) NoNestedAttributes),
                                     (''m'', Attribute (MapType StringType) NoNestedAttributes),
                                     (''o'', Attribute (ObjectType [(''x'', BoolType)]) NoNestedAttributes),
                                     (''s'', Attribute StringType NoNestedAttributes),
                                     (''g'', Attribute NilType (SingleNestedAttributes [(''id'', Attribute NumberType NoNestedAttributes)]))],
                       Version = 0, DeprecationMessage = [], Description = [], MarkdownDescription = []\<rparr>
         [AttributeName ''s'', AttributeName ''b''] = Inl (StillRemains [AttributeName ''b''] StepKindMismatch)
   \<and> AttributeAtPath \<lparr>Attributes = [(''a'', Attribute (ListType StringType) NoNestedAttributes),
                                     (''m'', Attribute (MapType StringType) NoNestedAttributes),
                                     (''o'', Attribute (ObjectType [(''x'', BoolType)]) NoNestedAttributes),
                                     (''s'', Attribute StringType NoNestedAttributes),
                                     (''g'', Attribute NilType (SingleNestedAttributes [(''id'', Attribute NumberType NoNestedAttributes)]))],
                       Version = 0, DeprecationMessage = [], Description = [], MarkdownDescription = []\<rparr>
         [AttributeName ''g'', AttributeName ''nope''] = Inl (StillRemains [AttributeName ''nope''] AttributeNotFound)"
proof -
  let ?s = "\<lparr>Attributes = [(''a'', Attribute (ListType StringType) NoNestedAttributes),
                                     (''m'', Attribute (MapType StringType) NoNestedAttributes),
                                     (''o'', Attribute (ObjectType [(''x'', BoolType)]) NoNestedAttributes),
                                     (''s'', Attribute StringType NoNestedAttributes),
                                     (''g'', Attribute NilType (SingleNestedAttributes [(''id'', Attribute NumberType NoNestedAttributes)]))],
                       Version = 0, DeprecationMessage = [], Description = [], MarkdownDescription = []\<rparr>"
  show ?thesis
    using AttributeAtPath_failure_modes[where s = ?s and n = "''b''" and rest = "[]"]
      AttributeAtPath_failure_modes[where s = ?s and n = "''a''" and e = StringType and nested = NoNestedAttributes and i = 0]
      AttributeAtPath_failure_modes[where s = ?s and n = "''m''" and e = StringType and nested = NoNestedAttributes and k = "''k''"]
      AttributeAtPath_failure_modes[where s = ?s and n = "''o''" and e = BoolType and ats = "[(''x'', BoolType)]" and nested = NoNestedAttributes and k = "''x''"]
      AttributeAtPath_failure_modes[where s = ?s and n = "''s''" and p = StringType and nested = NoNestedAttributes and st = "AttributeName ''b''" and rest = "[]"]
      AttributeAtPath_failure_modes[where s = ?s and n = "''g''" and grp = "[(''id'', Attribute NumberType NoNestedAttributes)]" and k = "''nope''" and rest = "[]"]
    by simp
qed


section \<open>Properties of the reflection engine\<close>

lemma filter_empty_iff_subset: "filter (\<lambda>n. n \<notin> B) xs = [] \<longleftrightarrow> set xs \<subseteq> B"
  by (auto simp: filter_empty_conv)


text \<open>The expectations of the tests of \<open>Struct\<close> in internal/reflect/struct_test.go.\<close>

lemma Struct_tests:
  "Struct opts [(''a'', GoString)] (TfObject [], PMap []) = Inl (SchemaFieldMismatch [''a''] [])"
  "mismatch_message [''a''] [] = ''mismatch between struct and object: Struct defines fields not found in object: a.''"
  "Struct opts [] (TfObject [(''a'', TfString)], PMap [(''a'', TfString, PString ''hello'')]) = Inl (SchemaFieldMismatch [] [''a''])"
  "mismatch_message [] [''a''] = ''mismatch between struct and object: Object defines fields not found in struct: a.''"
  "Struct opts [(''a'', GoString)] (TfObject [(''b'', TfString)], PMap [(''b'', TfString, PString ''hello'')]) = Inl (SchemaFieldMismatch [''a''] [''b''])"
  "mismatch_message [''a''] [''b''] = ''mismatch between struct and object: Struct defines fields not found in object: a. Object defines fields not found in struct: b.''"
  "Struct opts [] (TfString, PString ''hello'') = Inl NotAnObject"
  by (simp_all add: Struct_def As_map_def mismatch_message_def)


text \<open>The part of \<open>TestNewStruct_complex\<close> on string attributes, with both options true:
  the fields that can hold unknown or null receive it, the plain strings become empty.\<close>

lemma Struct_complex_test:
  "Struct \<lparr>UnhandledNullAsEmpty = True, UnhandledUnknownAsEmpty = True\<rparr>
     [(''unknownable'', UnknownableString), (''nullable'', NullableString),
      (''attribute_value'', AttributeValue), (''unhandled_null'', GoString),
      (''unhandled_unknown'', GoString)]
     (TfObject [(''unknownable'', TfString), (''nullable'', TfString), (''attribute_value'', TfString),
                (''unhandled_null'', TfString), (''unhandled_unknown'', TfString)],
      PMap [(''unknownable'', TfString, PUnknown), (''nullable'', TfString, PNil),
            (''attribute_value'', TfString, PUnknown), (''unhandled_null'', TfString, PNil),
            (''unhandled_unknown'', TfString, PUnknown)])
   = Inr [(''unknownable'', NativeUnknownable True []), (''nullable'', NativeNullable True []),
          (''attribute_value'', NativeAttributeValue (StringValue True False [])),
          (''unhandled_null'', NativeString []), (''unhandled_unknown'', NativeString [])]"
  by (simp add: Struct_def As_map_def Into_field_def IsKnown_def IsNull_def)

text \<open>
  Claim C6.  When the wire value is an object and the set of the struct's tagged field
  names differs from the set of the object's attribute names, \<open>Struct\<close> fails with one
  error that carries both the names found only in the struct and the names found only in
  the object; the list of a side is empty exactly when that side has no name of its own.
\<close>

theorem Struct_field_name_mismatch:
  "fst v = TfObject ots \<and> snd v = PMap objectFields
   \<and> set (map fst targetFields) \<noteq> set (map fst objectFields) \<longrightarrow>
   (\<exists>structOnly objectOnly.
      Struct opts targetFields v = Inl (SchemaFieldMismatch structOnly objectOnly)
      \<and> set structOnly = set (map fst targetFields) - set (map fst objectFields)
      \<and> set objectOnly = set (map fst objectFields) - set (map fst targetFields)
      \<and> (structOnly = [] \<longleftrightarrow> set (map fst targetFields) \<subseteq> set (map fst objectFields))
      \<and> (objectOnly = [] \<longleftrightarrow> set (map fst objectFields) \<subseteq> set (map fst targetFields)))"
proof (intro impI, elim conjE)
  assume a: "fst v = TfObject ots" "snd v = PMap objectFields"
    "set (map fst targetFields) \<noteq> set (map fst objectFields)"
  let ?so = "filter (\<lambda>n. n \<notin> set (map fst objectFields)) (map fst targetFields)"
  let ?oo = "filter (\<lambda>n. n \<notin> set (map fst targetFields)) (map fst objectFields)"
  have ne: "?so \<noteq> [] \<or> ?oo \<noteq> []"
    using a(3) unfolding filter_empty_iff_subset by blast
  have "Struct opts targetFields v = Inl (SchemaFieldMismatch ?so ?oo)"
    using a(1,2) ne by (simp add: Struct_def As_map_def Let_def)
  moreover have "set ?so = set (map fst targetFields) - set (map fst objectFields)" by auto
  moreover have "set ?oo = set (map fst objectFields) - set (map fst targetFields)" by auto
  moreover have "?so = [] \<longleftrightarrow> set (map fst targetFields) \<subseteq> set (map fst objectFields)"
    by (rule filter_empty_iff_subset)
  moreover have "?oo = [] \<longleftrightarrow> set (map fst objectFields) \<subseteq> set (map fst targetFields)"
    by (rule filter_empty_iff_subset)
  ultimately show "\<exists>structOnly objectOnly.
      Struct opts targetFields v = Inl (SchemaFieldMismatch structOnly objectOnly)
      \<and> set structOnly = set (map fst targetFields) - set (map fst objectFields)
      \<and> set objectOnly = set (map fst objectFields) - set (map fst targetFields)
      \<and> (structOnly = [] \<longleftrightarrow> set (map fst targetFields) \<subseteq> set (map fst objectFields))
      \<and> (objectOnly = [] \<longleftrightarrow> set (map fst objectFields) \<subseteq> set (map fst targetFields))"
    by blast
qed

theorem Struct_field_name_mismatch_witness:
  "fst (TfObject [(''b'', TfString)], PMap [(''b'', TfString, PString ''hello'')]) = TfObject [(''b'', TfString)]
   \<and> snd (TfObject [(''b'', TfString)], PMap [(''b'', TfString, PString ''hello'')]) = PMap [(''b'', TfString, PString ''hello'')]
   \<and> set (map fst [(''a'', GoString)]) \<noteq> set (map fst [(''b'', TfString, PString ''hello'')])
   \<and> Struct \<lparr>UnhandledNullAsEmpty = False, UnhandledUnknownAsEmpty = False\<rparr> [(''a'', GoString)]
        (TfObject [(''b'', TfString)], PMap [(''b'', TfString, PString ''hello'')])
      = Inl (SchemaFieldMismatch [''a''] [''b''])"
  using Struct_field_name_mismatch[where v = "(TfObject [(''b'', TfString)], PMap [(''b'', TfString, PString ''hello'')])"
      and ots = "[(''b'', TfString)]" and objectFields = "[(''b'', TfString, PString ''hello'')]"
      and targetFields = "[(''a'', GoString)]"
      and opts = "\<lparr>UnhandledNullAsEmpty = False, UnhandledUnknownAsEmpty = False\<rparr>"]
  by (simp add: Struct_def As_map_def)


text \<open>
  Claim C8.  When an Unknown (Null) value is decoded into a field that cannot represent
  unknown (null), the outcome depends on the matching flag only: the field's empty
  value when the flag is true, the unhandled-value error when it is false.  With both
  flags false an Unknown decoded into a plain string field fails, and with
  \<open>UnhandledUnknownAsEmpty\<close> true it yields the empty string.
\<close>

theorem Into_field_unhandled:
  "(\<not> IsKnown v \<and> \<not> can_hold_unknown f \<longrightarrow>
      Into_field opts f v =
        (if UnhandledUnknownAsEmpty opts then Inr (empty_value f) else Inl UnhandledNullOrUnknown))
   \<and> (IsKnown v \<and> IsNull v \<and> \<not> can_hold_null f \<longrightarrow>
      Into_field opts f v =
        (if UnhandledNullAsEmpty opts then Inr (empty_value f) else Inl UnhandledNullOrUnknown))
   \<and> Into_field \<lparr>UnhandledNullAsEmpty = False, UnhandledUnknownAsEmpty = False\<rparr> GoString (TfString, PUnknown)
        = Inl UnhandledNullOrUnknown
   \<and> Into_field \<lparr>UnhandledNullAsEmpty = b, UnhandledUnknownAsEmpty = True\<rparr> GoString (TfString, PUnknown)
        = Inr (NativeString [])"
  by (simp add: Into_field_def IsKnown_def)

theorem Into_field_unhandled_witness:
  "\<not> IsKnown (TfString, PUnknown) \<and> \<not> can_hold_unknown NullableString
   \<and> IsKnown (TfString, PNil) \<and> IsNull (TfString, PNil) \<and> \<not> can_hold_null GoString
   \<and> Into_field \<lparr>UnhandledNullAsEmpty = True, UnhandledUnknownAsEmpty = False\<rparr> NullableString (TfString, PUnknown)
       = Inl UnhandledNullOrUnknown
   \<and> Into_field \<lparr>UnhandledNullAsEmpty = True, UnhandledUnknownAsEmpty = False\<rparr> GoString (TfString, PNil)
       = Inr (NativeString [])"
  using Into_field_unhandled[where v = "(TfString, PUnknown)" and f = NullableString
      and opts = "\<lparr>UnhandledNullAsEmpty = True, UnhandledUnknownAsEmpty = False\<rparr>"]
    Into_field_unhandled[where v = "(TfString, PNil)" and f = GoString
      and opts = "\<lparr>UnhandledNullAsEmpty = True, UnhandledUnknownAsEmpty = False\<rparr>"]
  by (simp add: IsKnown_def IsNull_def)

end
